theory Spec2Isabelle
  imports Main
begin

section \<open>Phaser.Components.Texture: data model\<close>

text \<open>
  The component under study is the class \<open>Texture\<close> of
  \<open>src/Phaser/components/sprite/Texture.ts\<close>. Its methods mutate the fields of the
  texture itself, fields of the parent sprite (\<open>frameBounds\<close>, \<open>body.bounds\<close>) and call
  into two collaborators reached through the sprite and the game: the cache and the
  animation manager.

  JavaScript objects are references. The image held in the cache and the
  \<open>DynamicTexture\<close> are therefore kept in a store and the texture holds their
  addresses; the getters read the store at the time they are called. \<open>null\<close> is
  \<open>None\<close>. Numbers are only copied, never computed with, and are taken as \<open>int\<close>.
  Reading a property of \<open>null\<close> throws a \<open>TypeError\<close>.
\<close>

datatype error = TypeError

record Image =
  img_width :: int
  img_height :: int

record DynamicTexture =
  canvas :: nat
  dt_width :: int
  dt_height :: int

record heap =
  images :: "nat \<Rightarrow> Image"
  dynamicTextures :: "nat \<Rightarrow> DynamicTexture"

text \<open>
  What \<open>this.texture\<close> can hold: the image itself, or the canvas of a dynamic
  texture.
\<close>

datatype surface = ImageSurface nat | CanvasSurface nat

text \<open>
  The fields of the class, in the order of their declarations. The references
  \<open>game\<close>, \<open>_sprite\<close>, \<open>canvas\<close> and \<open>context\<close> are fixed at construction and are
  represented by the world the methods run in (below) rather than by fields.
\<close>

record Texture =
  imageTexture :: "nat option"
  dynamicTexture :: "nat option"
  loaded :: bool
  alpha :: int
  cacheKey :: "string option"
  texture :: "surface option"
  renderRotation :: bool
  flippedX :: bool
  flippedY :: bool
  isDynamic :: bool

text \<open>
  The parts of the parent sprite the texture reads and writes. A frame data object
  is the list of the sizes of its frames.
\<close>

datatype FrameData = FrameData "(int \<times> int) list"

record Rectangle =
  rect_x :: int
  rect_y :: int
  rect_width :: int
  rect_height :: int

record AnimationManager =
  frameData :: "FrameData option"

record Body =
  bounds :: Rectangle

record Sprite =
  animations :: AnimationManager
  frameBounds :: Rectangle
  body :: Body

text \<open>
  The collaborators whose code is outside this file are parameters: the three
  lookups of \<open>game.cache\<close>, and the two methods of the sprite's animation manager.
  Their types say what they are taken to reach: the lookups read the cache and
  nothing else, \<open>getImage\<close> answers with an image of the store or \<open>null\<close>, \<open>destroy\<close>
  acts on the animation manager alone, and \<open>loadFrameData\<close> may act on the whole
  sprite (its animations, \<open>frameBounds\<close> and body). None of them throws, touches the
  texture or changes an image or a dynamic texture.
\<close>

record collaborators =
  getImage :: "string \<Rightarrow> nat option"
  isSpriteSheet :: "string \<Rightarrow> bool"
  getFrameData :: "string \<Rightarrow> FrameData"
  destroy :: "AnimationManager \<Rightarrow> AnimationManager"
  loadFrameData :: "FrameData \<Rightarrow> Sprite \<Rightarrow> Sprite"

text \<open>
  The sequence of observable steps: the calls into the animation manager, the commit
  of a backend by \<open>setTo\<close>, and the writes into the sprite's rectangles.
\<close>

datatype event =
    AnimationsDestroy
  | SetTo "nat option" "nat option"
  | LoadFrameData FrameData
  | FrameBoundsWidth int
  | FrameBoundsHeight int
  | BodyBoundsWidth int
  | BodyBoundsHeight int

record world =
  tex :: Texture
  sprite :: Sprite
  store :: heap
  trace :: "event list"

text \<open>
  A method either returns, leaving a world, or throws, leaving the error and the world
  as it was when the exception was raised.
\<close>

type_synonym outcome = "(error \<times> world) + world"

definition and_then :: "outcome \<Rightarrow> (world \<Rightarrow> outcome) \<Rightarrow> outcome" where
  "and_then r f = (case r of Inl e \<Rightarrow> Inl e | Inr w \<Rightarrow> f w)"

definition state_after :: "outcome \<Rightarrow> world" where
  "state_after r = (case r of Inl (e, w) \<Rightarrow> w | Inr w \<Rightarrow> w)"

section \<open>The methods\<close>

subsection \<open>setTo\<close>

text \<open>
  \<open>if (dynamic)\<close> tests for a non-null object. The method has no statement that can
  throw: \<open>this.dynamicTexture.canvas\<close> is read right after \<open>this.dynamicTexture\<close>
  was assigned a non-null object. The returned sprite is part of the world.
\<close>

definition setTo :: "nat option \<Rightarrow> nat option \<Rightarrow> world \<Rightarrow> world" where
  "setTo image_arg dynamic w =
     (let t = tex w;
          t' = (case dynamic of
                  Some d \<Rightarrow>
                    t\<lparr>isDynamic := True,
                      dynamicTexture := Some d,
                      texture := Some (CanvasSurface (canvas (dynamicTextures (store w) d)))\<rparr>
                | None \<Rightarrow>
                    t\<lparr>isDynamic := False,
                      imageTexture := image_arg,
                      texture := map_option ImageSurface image_arg\<rparr>)
      in w\<lparr>tex := t'\<lparr>loaded := True\<rparr>, trace := trace w @ [SetTo image_arg dynamic]\<rparr>)"

subsection \<open>The getters width and height\<close>

definition width :: "heap \<Rightarrow> Texture \<Rightarrow> error + int" where
  "width h t =
     (if isDynamic t
      then (case dynamicTexture t of
              None \<Rightarrow> Inl TypeError
            | Some d \<Rightarrow> Inr (dt_width (dynamicTextures h d)))
      else (case imageTexture t of
              None \<Rightarrow> Inl TypeError
            | Some i \<Rightarrow> Inr (img_width (images h i))))"

definition height :: "heap \<Rightarrow> Texture \<Rightarrow> error + int" where
  "height h t =
     (if isDynamic t
      then (case dynamicTexture t of
              None \<Rightarrow> Inl TypeError
            | Some d \<Rightarrow> Inr (dt_height (dynamicTextures h d)))
      else (case imageTexture t of
              None \<Rightarrow> Inl TypeError
            | Some i \<Rightarrow> Inr (img_height (images h i))))"

subsection \<open>The statements of the loaders\<close>

text \<open>\<open>this._sprite.animations.destroy()\<close>\<close>

definition animations_destroy :: "collaborators \<Rightarrow> world \<Rightarrow> world" where
  "animations_destroy env w =
     w\<lparr>sprite := (sprite w)\<lparr>animations := destroy env (animations (sprite w))\<rparr>,
       trace := trace w @ [AnimationsDestroy]\<rparr>"

text \<open>\<open>this._sprite.animations.loadFrameData(...)\<close>\<close>

definition animations_loadFrameData :: "collaborators \<Rightarrow> FrameData \<Rightarrow> world \<Rightarrow> world" where
  "animations_loadFrameData env fd w =
     w\<lparr>sprite := loadFrameData env fd (sprite w), trace := trace w @ [LoadFrameData fd]\<rparr>"

text \<open>\<open>this._sprite.frameBounds.width = this.width\<close> and its three siblings.\<close>

definition set_frameBounds_width :: "world \<Rightarrow> outcome" where
  "set_frameBounds_width w =
     (case width (store w) (tex w) of
        Inl e \<Rightarrow> Inl (e, w)
      | Inr v \<Rightarrow>
          Inr (w\<lparr>sprite := (sprite w)\<lparr>frameBounds := (frameBounds (sprite w))\<lparr>rect_width := v\<rparr>\<rparr>,
                 trace := trace w @ [FrameBoundsWidth v]\<rparr>))"

definition set_frameBounds_height :: "world \<Rightarrow> outcome" where
  "set_frameBounds_height w =
     (case height (store w) (tex w) of
        Inl e \<Rightarrow> Inl (e, w)
      | Inr v \<Rightarrow>
          Inr (w\<lparr>sprite := (sprite w)\<lparr>frameBounds := (frameBounds (sprite w))\<lparr>rect_height := v\<rparr>\<rparr>,
                 trace := trace w @ [FrameBoundsHeight v]\<rparr>))"

definition set_body_bounds_width :: "world \<Rightarrow> outcome" where
  "set_body_bounds_width w =
     (case width (store w) (tex w) of
        Inl e \<Rightarrow> Inl (e, w)
      | Inr v \<Rightarrow>
          Inr (w\<lparr>sprite := (sprite w)\<lparr>body := (body (sprite w))
                    \<lparr>bounds := (bounds (body (sprite w)))\<lparr>rect_width := v\<rparr>\<rparr>\<rparr>,
                 trace := trace w @ [BodyBoundsWidth v]\<rparr>))"

definition set_body_bounds_height :: "world \<Rightarrow> outcome" where
  "set_body_bounds_height w =
     (case height (store w) (tex w) of
        Inl e \<Rightarrow> Inl (e, w)
      | Inr v \<Rightarrow>
          Inr (w\<lparr>sprite := (sprite w)\<lparr>body := (body (sprite w))
                    \<lparr>bounds := (bounds (body (sprite w)))\<lparr>rect_height := v\<rparr>\<rparr>\<rparr>,
                 trace := trace w @ [BodyBoundsHeight v]\<rparr>))"

subsection \<open>loadImage\<close>

text \<open>
  The flags \<open>clearAnimations\<close> and \<open>updateBody\<close> default to \<open>true\<close> when the caller
  leaves them out; here they are always given.
\<close>

definition loadImage :: "collaborators \<Rightarrow> string \<Rightarrow> bool \<Rightarrow> bool \<Rightarrow> world \<Rightarrow> outcome" where
  "loadImage env key clearAnimations updateBody w =
     (let w1 = (if clearAnimations \<and> frameData (animations (sprite w)) \<noteq> None
                then animations_destroy env w else w)
      in if getImage env key \<noteq> None
         then
           and_then
             (let w2 = setTo (getImage env key) None w1
              in if isSpriteSheet env key
                 then Inr (animations_loadFrameData env (getFrameData env key) w2)
                 else and_then (set_frameBounds_width w2) set_frameBounds_height)
             (\<lambda>w3. if updateBody
                   then and_then (set_body_bounds_width w3) set_body_bounds_height
                   else Inr w3)
         else Inr w1)"

subsection \<open>loadDynamicTexture\<close>

text \<open>The argument is typed \<open>DynamicTexture\<close>, which admits \<open>null\<close>.\<close>

definition loadDynamicTexture :: "collaborators \<Rightarrow> nat option \<Rightarrow> world \<Rightarrow> outcome" where
  "loadDynamicTexture env texture_arg w =
     (let w1 = (if frameData (animations (sprite w)) \<noteq> None
                then animations_destroy env w else w);
          w2 = setTo None texture_arg w1
      in and_then (set_frameBounds_width w2) set_frameBounds_height)"

subsection \<open>The constructor\<close>

text \<open>
  The field initialisers run first (\<open>imageTexture\<close>, \<open>dynamicTexture\<close> are \<open>null\<close>,
  \<open>loaded\<close> and \<open>isDynamic\<close> are \<open>false\<close>, \<open>renderRotation\<close> is \<open>true\<close>), then the
  body. A caller who leaves \<open>key\<close> out passes \<open>Some []\<close>, the default \<open>''\<close>; \<open>None\<close>
  is an explicit \<open>null\<close>.
\<close>

definition fresh :: Texture where
  "fresh = \<lparr>imageTexture = None, dynamicTexture = None, loaded = False, alpha = 1,
            cacheKey = None, texture = None, renderRotation = True,
            flippedX = False, flippedY = False, isDynamic = False\<rparr>"

definition new_Texture :: "collaborators \<Rightarrow> Sprite \<Rightarrow> heap \<Rightarrow> string option \<Rightarrow> outcome" where
  "new_Texture env parent h key =
     (let w = \<lparr>tex = fresh, sprite = parent, store = h, trace = []\<rparr>
      in case key of
           None \<Rightarrow> Inr w
         | Some k \<Rightarrow> loadImage env k True True (w\<lparr>tex := (tex w)\<lparr>cacheKey := Some k\<rparr>\<rparr>))"

subsection \<open>Sequences of calls\<close>

text \<open>
  The public methods a client can call on a texture, and the state a sequence of such
  calls leaves behind. A call that throws leaves the state it had reached; the client
  may catch the exception and go on.
\<close>

datatype call =
    CallSetTo "nat option" "nat option"
  | CallLoadImage string bool bool
  | CallLoadDynamicTexture "nat option"

fun perform :: "collaborators \<Rightarrow> call \<Rightarrow> world \<Rightarrow> outcome" where
  "perform env (CallSetTo image_arg dynamic) w = Inr (setTo image_arg dynamic w)"
| "perform env (CallLoadImage key clearAnimations updateBody) w =
     loadImage env key clearAnimations updateBody w"
| "perform env (CallLoadDynamicTexture texture_arg) w = loadDynamicTexture env texture_arg w"

fun run :: "collaborators \<Rightarrow> call list \<Rightarrow> world \<Rightarrow> world" where
  "run env [] w = w"
| "run env (c # cs) w = run env cs (state_after (perform env c w))"

section \<open>A concrete game\<close>

text \<open>
  An instance of the store, the sprite and the collaborators on which the methods can
  be run: the cache holds the single image \<open>ball\<close> (64 by 32) and the sprite sheet
  \<open>hero\<close> of four frames of 32 by 48, every dynamic texture is 128 by 128, and the
  example animation manager forgets its frame data on \<open>destroy\<close> and stores what
  \<open>loadFrameData\<close> hands it.
\<close>

definition example_heap :: heap where
  "example_heap =
     \<lparr>images = (\<lambda>i. if i = 0 then \<lparr>img_width = 64, img_height = 32\<rparr>
                     else \<lparr>img_width = 128, img_height = 48\<rparr>),
      dynamicTextures = (\<lambda>d. \<lparr>canvas = 7, dt_width = 128, dt_height = 128\<rparr>)\<rparr>"

definition example_sprite :: Sprite where
  "example_sprite =
     \<lparr>animations = \<lparr>frameData = Some (FrameData [(16, 16)])\<rparr>,
      frameBounds = \<lparr>rect_x = 0, rect_y = 0, rect_width = 16, rect_height = 16\<rparr>,
      body = \<lparr>bounds = \<lparr>rect_x = 3, rect_y = 4, rect_width = 10, rect_height = 12\<rparr>\<rparr>\<rparr>"

definition example_world :: world where
  "example_world = \<lparr>tex = fresh, sprite = example_sprite, store = example_heap, trace = []\<rparr>"

definition example_env :: collaborators where
  "example_env =
     \<lparr>getImage = (\<lambda>k. if k = ''ball'' then Some 0 else if k = ''hero'' then Some 1 else None),
      isSpriteSheet = (\<lambda>k. k = ''hero''),
      getFrameData = (\<lambda>k. FrameData [(32, 48), (32, 48), (32, 48), (32, 48)]),
      destroy = (\<lambda>a. a\<lparr>frameData := None\<rparr>),
      loadFrameData = (\<lambda>fd s. s\<lparr>animations := (animations s)\<lparr>frameData := Some fd\<rparr>\<rparr>)\<rparr>"

section \<open>Properties\<close>

subsection \<open>What each statement changes\<close>

lemma setTo_frame:
  "store (setTo a b w) = store w"
  "sprite (setTo a b w) = sprite w"
  "trace (setTo a b w) = trace w @ [SetTo a b]"
  by (simp_all add: setTo_def Let_def)

lemma setTo_image_tex:
  "tex (setTo (Some i) None w) =
     (tex w)\<lparr>isDynamic := False, imageTexture := Some i,
             texture := Some (ImageSurface i), loaded := True\<rparr>"
  by (simp add: setTo_def Let_def)

lemma setTo_dynamic_tex:
  "tex (setTo a (Some d) w) =
     (tex w)\<lparr>isDynamic := True, dynamicTexture := Some d,
             texture := Some (CanvasSurface (canvas (dynamicTextures (store w) d))),
             loaded := True\<rparr>"
  by (simp add: setTo_def Let_def)

lemma setTo_nothing_tex:
  "tex (setTo None None w) =
     (tex w)\<lparr>isDynamic := False, imageTexture := None, texture := None, loaded := True\<rparr>"
  by (simp add: setTo_def Let_def)

lemma animations_destroy_frame:
  "tex (animations_destroy env w) = tex w"
  "store (animations_destroy env w) = store w"
  "trace (animations_destroy env w) = trace w @ [AnimationsDestroy]"
  "animations (sprite (animations_destroy env w)) = destroy env (animations (sprite w))"
  "frameBounds (sprite (animations_destroy env w)) = frameBounds (sprite w)"
  "body (sprite (animations_destroy env w)) = body (sprite w)"
  by (simp_all add: animations_destroy_def)

subsection \<open>The loaders, statement by statement\<close>

text \<open>
  After \<open>setTo\<close> with a non-null argument the getters cannot throw, so both loaders
  return and their final world can be written out.
\<close>

lemma loadImage_miss:
  "getImage env key = None \<Longrightarrow>
   loadImage env key c u w =
     Inr (if c \<and> frameData (animations (sprite w)) \<noteq> None then animations_destroy env w else w)"
  by (simp add: loadImage_def)

lemma loadImage_hit:
  assumes "getImage env key = Some i"
  shows "loadImage env key c u w =
    Inr (let w1 = (if c \<and> frameData (animations (sprite w)) \<noteq> None
                   then animations_destroy env w else w);
             w2 = setTo (Some i) None w1;
             iw = img_width (images (store w) i);
             ih = img_height (images (store w) i);
             w3 = (if isSpriteSheet env key
                   then animations_loadFrameData env (getFrameData env key) w2
                   else w2\<lparr>sprite := (sprite w2)\<lparr>frameBounds := (frameBounds (sprite w2))
                              \<lparr>rect_width := iw, rect_height := ih\<rparr>\<rparr>,
                           trace := trace w2 @ [FrameBoundsWidth iw, FrameBoundsHeight ih]\<rparr>)
         in if u
            then w3\<lparr>sprite := (sprite w3)\<lparr>body := (body (sprite w3))
                       \<lparr>bounds := (bounds (body (sprite w3)))\<lparr>rect_width := iw, rect_height := ih\<rparr>\<rparr>\<rparr>,
                    trace := trace w3 @ [BodyBoundsWidth iw, BodyBoundsHeight ih]\<rparr>
            else w3)"
  using assms
  by (simp add: loadImage_def Let_def and_then_def set_frameBounds_width_def
      set_frameBounds_height_def set_body_bounds_width_def set_body_bounds_height_def
      width_def height_def setTo_def animations_destroy_def animations_loadFrameData_def)

lemma loadDynamicTexture_buffer:
  "loadDynamicTexture env (Some d) w =
    Inr (let w1 = (if frameData (animations (sprite w)) \<noteq> None
                   then animations_destroy env w else w);
             w2 = setTo None (Some d) w1;
             dw = dt_width (dynamicTextures (store w) d);
             dh = dt_height (dynamicTextures (store w) d)
         in w2\<lparr>sprite := (sprite w2)\<lparr>frameBounds := (frameBounds (sprite w2))
                    \<lparr>rect_width := dw, rect_height := dh\<rparr>\<rparr>,
                 trace := trace w2 @ [FrameBoundsWidth dw, FrameBoundsHeight dh]\<rparr>)"
  by (simp add: loadDynamicTexture_def Let_def and_then_def set_frameBounds_width_def
      set_frameBounds_height_def width_def height_def setTo_def animations_destroy_def)

lemma loadDynamicTexture_null:
  "loadDynamicTexture env None w =
    Inl (TypeError, setTo None None (if frameData (animations (sprite w)) \<noteq> None
                   then animations_destroy env w else w))"
  by (simp add: loadDynamicTexture_def Let_def and_then_def set_frameBounds_width_def
      width_def setTo_def)

subsection \<open>Sequences of calls\<close>

lemma perform_loaded_or_same:
  "loaded (tex (state_after (perform env c w))) \<or> tex (state_after (perform env c w)) = tex w"
proof (cases c)
  case (CallSetTo a b)
  then show ?thesis by (simp add: state_after_def setTo_def Let_def split: option.split)
next
  case (CallLoadImage key ca u)
  show ?thesis
  proof (cases "getImage env key")
    case None
    then show ?thesis
      using CallLoadImage by (simp add: loadImage_miss state_after_def animations_destroy_frame)
  next
    case (Some i)
    then show ?thesis
      using CallLoadImage
      by (simp add: loadImage_hit state_after_def Let_def setTo_image_tex
          animations_loadFrameData_def)
  qed
next
  case (CallLoadDynamicTexture b)
  then show ?thesis
    by (cases b)
       (simp_all add: loadDynamicTexture_buffer loadDynamicTexture_null state_after_def Let_def
          setTo_dynamic_tex setTo_nothing_tex)
qed

text \<open>
  A texture is either loaded, or still has the backend fields of a fresh one. Every
  method keeps this, whether it returns or throws, and the constructor establishes it.
\<close>

lemma run_keeps_unbound:
  "loaded (tex w) \<or> (\<not> isDynamic (tex w) \<and> imageTexture (tex w) = None) \<Longrightarrow>
   loaded (tex (run env cs w)) \<or>
   (\<not> isDynamic (tex (run env cs w)) \<and> imageTexture (tex (run env cs w)) = None)"
proof (induction cs arbitrary: w)
  case Nil
  then show ?case by simp
next
  case (Cons c cs)
  have "loaded (tex (state_after (perform env c w))) \<or>
        (\<not> isDynamic (tex (state_after (perform env c w))) \<and>
         imageTexture (tex (state_after (perform env c w))) = None)"
    using perform_loaded_or_same [of env c w] Cons.prems by auto
  then show ?case using Cons.IH by simp
qed

lemma new_Texture_unbound:
  "loaded (tex (state_after (new_Texture env parent h key))) \<or>
   (\<not> isDynamic (tex (state_after (new_Texture env parent h key))) \<and>
    imageTexture (tex (state_after (new_Texture env parent h key))) = None)"
proof (cases key)
  case None
  then show ?thesis by (simp add: new_Texture_def state_after_def fresh_def)
next
  case (Some k)
  define w where "w = \<lparr>tex = fresh\<lparr>cacheKey := Some k\<rparr>, sprite = parent, store = h, trace = []\<rparr>"
  have "new_Texture env parent h key = perform env (CallLoadImage k True True) w"
    using Some by (simp add: new_Texture_def w_def)
  moreover have "\<not> isDynamic (tex w) \<and> imageTexture (tex w) = None"
    by (simp add: w_def fresh_def)
  ultimately show ?thesis
    using perform_loaded_or_same [of env "CallLoadImage k True True" w] by auto
qed

section \<open>The claims\<close>

text \<open>
  The definitions of the model, and of the concrete game, for evaluating the methods on
  concrete inputs.
\<close>

lemmas model_defs = loadImage_def loadDynamicTexture_def Let_def and_then_def
  set_frameBounds_width_def set_frameBounds_height_def set_body_bounds_width_def
  set_body_bounds_height_def width_def height_def setTo_def animations_destroy_def
  animations_loadFrameData_def state_after_def

lemmas example_defs = example_env_def example_world_def example_heap_def example_sprite_def
  fresh_def

subsection \<open>C1: the backend references after setTo\<close>

text \<open>
  C1, as amended. The claim that after a bind exactly one of \<open>imageTexture\<close> and
  \<open>dynamicTexture\<close> is populated does not hold: \<open>setTo\<close> assigns the reference of the
  branch it takes and never clears the other one. What holds for every texture, every
  store and both arguments: \<open>setTo\<close> returns with \<open>loaded\<close> true; \<open>isDynamic\<close> is true
  exactly when a dynamic texture was passed; the reference that \<open>isDynamic\<close> selects
  holds the argument that was passed; and the other reference keeps the value it had
  before the call. Since the world \<open>w\<close> is arbitrary, this covers every sequence of
  binds.
\<close>

theorem setTo_selected_backend:
  "loaded (tex (setTo i d w)) \<and>
   isDynamic (tex (setTo i d w)) = (d \<noteq> None) \<and>
   (if d \<noteq> None
    then dynamicTexture (tex (setTo i d w)) = d \<and>
         imageTexture (tex (setTo i d w)) = imageTexture (tex w)
    else imageTexture (tex (setTo i d w)) = i \<and>
         dynamicTexture (tex (setTo i d w)) = dynamicTexture (tex w))"
  by (cases d) (simp_all add: setTo_def Let_def)

text \<open>
  The counterexample to C1 as stated: a dynamic texture is bound, then a static image.
  Afterwards both references are populated, and \<open>isDynamic\<close> is false.
\<close>

theorem setTo_exactly_one_counterexample:
  "imageTexture (tex (setTo (Some 0) None (setTo None (Some 5) example_world))) = Some 0 \<and>
   dynamicTexture (tex (setTo (Some 0) None (setTo None (Some 5) example_world))) = Some 5 \<and>
   \<not> isDynamic (tex (setTo (Some 0) None (setTo None (Some 5) example_world)))"
  by (simp add: setTo_def Let_def)

subsection \<open>C2: setTo with neither argument\<close>

text \<open>
  C2, as amended. \<open>setTo\<close> has no check of its arguments. Called with neither an image
  nor a dynamic texture it returns normally: \<open>isDynamic\<close> is false, \<open>imageTexture\<close> and
  \<open>texture\<close> are \<open>null\<close>, \<open>loaded\<close> is true and \<open>dynamicTexture\<close> is what it was. The
  failure comes later: the next read of \<open>width\<close> or \<open>height\<close> throws.
\<close>

theorem setTo_neither_returns:
  "perform env (CallSetTo None None) w = Inr (setTo None None w) \<and>
   loaded (tex (setTo None None w)) \<and>
   \<not> isDynamic (tex (setTo None None w)) \<and>
   imageTexture (tex (setTo None None w)) = None \<and>
   texture (tex (setTo None None w)) = None \<and>
   dynamicTexture (tex (setTo None None w)) = dynamicTexture (tex w) \<and>
   width (store (setTo None None w)) (tex (setTo None None w)) = Inl TypeError \<and>
   height (store (setTo None None w)) (tex (setTo None None w)) = Inl TypeError"
  by (simp add: setTo_nothing_tex width_def height_def)

text \<open>
  The counterexample to C2 as stated: on a fresh texture the call returns, and leaves
  \<open>loaded\<close> true with no backend populated.
\<close>

theorem setTo_neither_counterexample:
  "perform example_env (CallSetTo None None) example_world = Inr (setTo None None example_world) \<and>
   loaded (tex (setTo None None example_world)) \<and>
   imageTexture (tex (setTo None None example_world)) = None \<and>
   dynamicTexture (tex (setTo None None example_world)) = None"
  by (simp add: setTo_nothing_tex example_world_def fresh_def)

subsection \<open>C3: a cache miss changes nothing of the texture\<close>

text \<open>
  C3. If \<open>getImage key\<close> is \<open>null\<close>, \<open>loadImage\<close> returns without an exception for
  every value of \<open>clearAnimations\<close> and \<open>updateBody\<close>, and the texture is the one it
  was: \<open>loaded\<close>, \<open>imageTexture\<close>, \<open>dynamicTexture\<close>, \<open>texture\<close> and \<open>isDynamic\<close> are
  unchanged, and the getters \<open>width\<close> and \<open>height\<close> give what they gave before.
\<close>

theorem loadImage_miss_noop:
  assumes "getImage env key = None"
  shows "\<exists>w'. loadImage env key clearAnimations updateBody w = Inr w' \<and>
           tex w' = tex w \<and>
           loaded (tex w') = loaded (tex w) \<and>
           imageTexture (tex w') = imageTexture (tex w) \<and>
           dynamicTexture (tex w') = dynamicTexture (tex w) \<and>
           texture (tex w') = texture (tex w) \<and>
           isDynamic (tex w') = isDynamic (tex w) \<and>
           width (store w') (tex w') = width (store w) (tex w) \<and>
           height (store w') (tex w') = height (store w) (tex w)"
  using assms by (simp add: loadImage_miss animations_destroy_frame)

theorem loadImage_miss_noop_witness:
  "getImage example_env ''ghost'' = None \<and>
   loadImage example_env ''ghost'' True True example_world =
     Inr (animations_destroy example_env example_world) \<and>
   tex (animations_destroy example_env example_world) = fresh \<and>
   width example_heap fresh = Inl TypeError"
proof -
  have miss: "getImage example_env ''ghost'' = None"
    by (simp add: example_env_def)
  from loadImage_miss_noop [OF miss, of True True example_world]
  show ?thesis
    using miss by (auto simp: model_defs example_world_def example_sprite_def fresh_def)
qed

subsection \<open>C4: the frame data is discarded before the new backend is bound\<close>

text \<open>
  C4. When the sprite's animation manager holds frame data and the key is in the cache,
  \<open>loadImage key\<close> with \<open>clearAnimations\<close> true returns, and the steps it adds to the
  trace start with the call of \<open>animations.destroy\<close>, immediately followed by the
  commit of the image by \<open>setTo\<close>; neither occurs again later in the call. The call
  is the discard followed by the rest: it equals \<open>loadImage\<close> without clearing, run
  on the world in which \<open>destroy\<close> has been applied to the animation manager and the
  texture is still the old one. At the end the animation manager is what \<open>destroy\<close>
  made of it, or, for a sprite sheet, what \<open>loadFrameData\<close> made of that.
\<close>

theorem loadImage_destroy_before_setTo:
  assumes "frameData (animations (sprite w)) \<noteq> None"
    and "getImage env key = Some i"
  shows "\<exists>w' rest. loadImage env key True updateBody w = Inr w' \<and>
           imageTexture (tex w') = Some i \<and>
           trace w' = trace w @ [AnimationsDestroy, SetTo (Some i) None] @ rest \<and>
           AnimationsDestroy \<notin> set rest \<and> (\<forall>a b. SetTo a b \<notin> set rest) \<and>
           loadImage env key True updateBody w =
             loadImage env key False updateBody
               (w\<lparr>sprite := (sprite w)\<lparr>animations := destroy env (animations (sprite w))\<rparr>,
                  trace := trace w @ [AnimationsDestroy]\<rparr>) \<and>
           tex (w\<lparr>sprite := (sprite w)\<lparr>animations := destroy env (animations (sprite w))\<rparr>,
                  trace := trace w @ [AnimationsDestroy]\<rparr>) = tex w \<and>
           animations (sprite w') =
             (if isSpriteSheet env key
              then animations (loadFrameData env (getFrameData env key)
                     ((sprite w)\<lparr>animations := destroy env (animations (sprite w))\<rparr>))
              else destroy env (animations (sprite w)))"
  using assms
  by (auto simp: loadImage_hit Let_def setTo_frame setTo_image_tex animations_destroy_def
      animations_loadFrameData_def)

theorem loadImage_destroy_before_setTo_witness:
  "frameData (animations (sprite example_world)) \<noteq> None \<and>
   getImage example_env ''ball'' = Some 0 \<and>
   trace (state_after (loadImage example_env ''ball'' True True example_world)) =
     [AnimationsDestroy, SetTo (Some 0) None, FrameBoundsWidth 64, FrameBoundsHeight 32,
      BodyBoundsWidth 64, BodyBoundsHeight 32] \<and>
   frameData (animations (sprite
     (state_after (loadImage example_env ''ball'' True True example_world)))) = None \<and>
   imageTexture (tex (state_after (loadImage example_env ''ball'' True True example_world)))
     = Some 0"
proof -
  have fd: "frameData (animations (sprite example_world)) \<noteq> None"
    by (simp add: example_world_def example_sprite_def)
  have hit: "getImage example_env ''ball'' = Some 0"
    by (simp add: example_env_def)
  from loadImage_destroy_before_setTo [OF fd hit, of True]
  show ?thesis
    using fd hit by (simp add: model_defs example_defs)
qed

subsection \<open>C5: sprite sheet or single frame, never both\<close>



subsection \<open>C6: the getters read the bound backend\<close>

text \<open>
  C6. After a static image is bound, \<open>width\<close> and \<open>height\<close> return the width and
  height that the image has in the store at the time of the read; after a dynamic
  texture is bound, those of the dynamic texture. In particular an image of 64 by 32
  gives 64 and 32, and a dynamic texture of 128 by 128 gives 128 and 128. The store
  \<open>h\<close> of the read is arbitrary, so nothing is remembered from the time of the bind.
  The getters dispatch on \<open>isDynamic\<close> alone: when it is true the result does not
  depend on \<open>imageTexture\<close> or \<open>loaded\<close>, when it is false it does not depend on
  \<open>dynamicTexture\<close> or \<open>loaded\<close>.
\<close>

theorem getters_read_bound_backend:
  "width h (tex (setTo (Some i) None w)) = Inr (img_width (images h i)) \<and>
   height h (tex (setTo (Some i) None w)) = Inr (img_height (images h i)) \<and>
   width h (tex (setTo a (Some d) w)) = Inr (dt_width (dynamicTextures h d)) \<and>
   height h (tex (setTo a (Some d) w)) = Inr (dt_height (dynamicTextures h d)) \<and>
   (images h i = \<lparr>img_width = 64, img_height = 32\<rparr> \<longrightarrow>
      width h (tex (setTo (Some i) None w)) = Inr 64 \<and>
      height h (tex (setTo (Some i) None w)) = Inr 32) \<and>
   (dt_width (dynamicTextures h d) = 128 \<and> dt_height (dynamicTextures h d) = 128 \<longrightarrow>
      width h (tex (setTo a (Some d) w)) = Inr 128 \<and>
      height h (tex (setTo a (Some d) w)) = Inr 128) \<and>
   (isDynamic t \<longrightarrow>
      width h (t\<lparr>imageTexture := x, loaded := l\<rparr>) = width h t \<and>
      height h (t\<lparr>imageTexture := x, loaded := l\<rparr>) = height h t) \<and>
   (\<not> isDynamic t \<longrightarrow>
      width h (t\<lparr>dynamicTexture := y, loaded := l\<rparr>) = width h t \<and>
      height h (t\<lparr>dynamicTexture := y, loaded := l\<rparr>) = height h t)"
  by (simp add: setTo_image_tex setTo_dynamic_tex width_def height_def)

theorem getters_read_bound_backend_witness:
  "images example_heap 0 = \<lparr>img_width = 64, img_height = 32\<rparr> \<and>
   width example_heap (tex (setTo (Some 0) None example_world)) = Inr 64 \<and>
   height example_heap (tex (setTo (Some 0) None example_world)) = Inr 32 \<and>
   dt_width (dynamicTextures example_heap 3) = 128 \<and>
   dt_height (dynamicTextures example_heap 3) = 128 \<and>
   width example_heap (tex (setTo None (Some 3) example_world)) = Inr 128 \<and>
   height example_heap (tex (setTo None (Some 3) example_world)) = Inr 128 \<and>
   isDynamic (tex (setTo None (Some 3) example_world)) \<and>
   width example_heap ((tex (setTo None (Some 3) example_world))
        \<lparr>imageTexture := Some 0, loaded := False\<rparr>) = Inr 128 \<and>
   \<not> isDynamic (tex (setTo (Some 0) None example_world)) \<and>
   width example_heap ((tex (setTo (Some 0) None example_world))
        \<lparr>dynamicTexture := Some 3, loaded := False\<rparr>) = Inr 64"
proof -
  have img: "images example_heap 0 = \<lparr>img_width = 64, img_height = 32\<rparr>"
    by (simp add: example_heap_def)
  have dyn: "dt_width (dynamicTextures example_heap 3) = 128 \<and>
             dt_height (dynamicTextures example_heap 3) = 128"
    by (simp add: example_heap_def)
  have d: "isDynamic (tex (setTo None (Some 3) example_world))"
    by (simp add: setTo_dynamic_tex)
  have s: "\<not> isDynamic (tex (setTo (Some 0) None example_world))"
    by (simp add: setTo_image_tex)
  from getters_read_bound_backend
         [where h = example_heap and i = 0 and w = example_world and a = None and d = 3
            and t = "tex (setTo None (Some 3) example_world)"
            and x = "Some 0" and l = False and y = "Some 3"]
       getters_read_bound_backend
         [where h = example_heap and i = 0 and w = example_world and a = None and d = 3
            and t = "tex (setTo (Some 0) None example_world)"
            and x = "Some 0" and l = False and y = "Some 3"]
  show ?thesis
    using img dyn d s by simp
qed

subsection \<open>C7: loadDynamicTexture leaves the body alone\<close>

text \<open>
  C7. For every dynamic texture, \<open>loadDynamicTexture\<close> returns with the dynamic
  backend bound, the width and height of \<open>frameBounds\<close> set to those of the dynamic
  texture, and the sprite's body, with its bounds, as it was. None of the steps it adds
  to the trace is a write to \<open>body.bounds\<close>, and the method has no flag.
\<close>

theorem loadDynamicTexture_leaves_body:
  "\<exists>w' evs.
     loadDynamicTexture env (Some d) w = Inr w' \<and>
     isDynamic (tex w') \<and> dynamicTexture (tex w') = Some d \<and> loaded (tex w') \<and>
     rect_width (frameBounds (sprite w')) = dt_width (dynamicTextures (store w) d) \<and>
     rect_height (frameBounds (sprite w')) = dt_height (dynamicTextures (store w) d) \<and>
     body (sprite w') = body (sprite w) \<and>
     trace w' = trace w @ evs \<and>
     (\<forall>v. BodyBoundsWidth v \<notin> set evs \<and> BodyBoundsHeight v \<notin> set evs)"
  by (auto simp: loadDynamicTexture_buffer Let_def setTo_frame setTo_dynamic_tex
      animations_destroy_frame)

theorem loadDynamicTexture_leaves_body_witness:
  "bounds (body (sprite (state_after (loadDynamicTexture example_env (Some 3) example_world))))
     = \<lparr>rect_x = 3, rect_y = 4, rect_width = 10, rect_height = 12\<rparr> \<and>
   frameBounds (sprite (state_after (loadDynamicTexture example_env (Some 3) example_world)))
     = \<lparr>rect_x = 0, rect_y = 0, rect_width = 128, rect_height = 128\<rparr> \<and>
   trace (state_after (loadDynamicTexture example_env (Some 3) example_world))
     = [AnimationsDestroy, SetTo None (Some 3), FrameBoundsWidth 128, FrameBoundsHeight 128]"
  using loadDynamicTexture_leaves_body [of example_env 3 example_world]
  by (simp add: model_defs example_defs)

subsection \<open>C8: loading twice is loading once\<close>

text \<open>
  C8. For a key that is not a sprite sheet, running \<open>loadImage\<close> a second time with
  the same arguments, the store unchanged, returns with the same \<open>frameBounds\<close> and
  the same \<open>body.bounds\<close> as the first run. And whatever the cache says of any key,
  running \<open>loadDynamicTexture\<close> a second time on the same dynamic texture returns
  with the same \<open>frameBounds\<close> and \<open>body.bounds\<close> as the first run.
\<close>

theorem load_twice_same_bounds:
  "(\<not> isSpriteSheet env key \<longrightarrow>
      (\<exists>w1 w2.
            loadImage env key clearAnimations updateBody w = Inr w1 \<and>
            loadImage env key clearAnimations updateBody w1 = Inr w2 \<and>
            frameBounds (sprite w2) = frameBounds (sprite w1) \<and>
            bounds (body (sprite w2)) = bounds (body (sprite w1)))) \<and>
   (\<exists>w1 w2.
            loadDynamicTexture env (Some d) w = Inr w1 \<and>
            loadDynamicTexture env (Some d) w1 = Inr w2 \<and>
            frameBounds (sprite w2) = frameBounds (sprite w1) \<and>
            bounds (body (sprite w2)) = bounds (body (sprite w1)))"
proof (intro conjI impI)
  assume single: "\<not> isSpriteSheet env key"
  show "\<exists>w1 w2.
            loadImage env key clearAnimations updateBody w = Inr w1 \<and>
            loadImage env key clearAnimations updateBody w1 = Inr w2 \<and>
            frameBounds (sprite w2) = frameBounds (sprite w1) \<and>
            bounds (body (sprite w2)) = bounds (body (sprite w1))"
  proof (cases "getImage env key")
    case None
    then show ?thesis
      by (simp add: loadImage_miss animations_destroy_frame)
  next
    case (Some i)
    then show ?thesis
      using single
      by (simp add: loadImage_hit Let_def setTo_frame animations_destroy_frame)
  qed
next
  show "\<exists>w1 w2.
            loadDynamicTexture env (Some d) w = Inr w1 \<and>
            loadDynamicTexture env (Some d) w1 = Inr w2 \<and>
            frameBounds (sprite w2) = frameBounds (sprite w1) \<and>
            bounds (body (sprite w2)) = bounds (body (sprite w1))"
    by (simp add: loadDynamicTexture_buffer Let_def setTo_frame animations_destroy_frame)
qed

theorem load_twice_same_bounds_witness:
  "\<not> isSpriteSheet example_env ''ball'' \<and>
   frameBounds (sprite (state_after (and_then (loadImage example_env ''ball'' True True example_world)
        (loadImage example_env ''ball'' True True))))
     = \<lparr>rect_x = 0, rect_y = 0, rect_width = 64, rect_height = 32\<rparr> \<and>
   frameBounds (sprite (state_after (loadImage example_env ''ball'' True True example_world)))
     = \<lparr>rect_x = 0, rect_y = 0, rect_width = 64, rect_height = 32\<rparr> \<and>
   bounds (body (sprite (state_after (and_then (loadImage example_env ''ball'' True True example_world)
        (loadImage example_env ''ball'' True True)))))
     = \<lparr>rect_x = 3, rect_y = 4, rect_width = 64, rect_height = 32\<rparr> \<and>
   bounds (body (sprite (state_after (loadImage example_env ''ball'' True True example_world))))
     = \<lparr>rect_x = 3, rect_y = 4, rect_width = 64, rect_height = 32\<rparr> \<and>
   frameBounds (sprite (state_after (and_then (loadDynamicTexture example_env (Some 3) example_world)
        (loadDynamicTexture example_env (Some 3)))))
     = \<lparr>rect_x = 0, rect_y = 0, rect_width = 128, rect_height = 128\<rparr> \<and>
   frameBounds (sprite (state_after (loadDynamicTexture example_env (Some 3) example_world)))
     = \<lparr>rect_x = 0, rect_y = 0, rect_width = 128, rect_height = 128\<rparr> \<and>
   bounds (body (sprite (state_after (and_then (loadDynamicTexture example_env (Some 3) example_world)
        (loadDynamicTexture example_env (Some 3))))))
     = \<lparr>rect_x = 3, rect_y = 4, rect_width = 10, rect_height = 12\<rparr> \<and>
   bounds (body (sprite (state_after (loadDynamicTexture example_env (Some 3) example_world))))
     = \<lparr>rect_x = 3, rect_y = 4, rect_width = 10, rect_height = 12\<rparr>"
proof -
  have single: "\<not> isSpriteSheet example_env ''ball''"
    by (simp add: example_env_def)
  from load_twice_same_bounds [of example_env "''ball''" True True example_world 3]
  show ?thesis
    using single by (simp add: model_defs example_defs)
qed

subsection \<open>C9: the getters of an unbound texture\<close>

text \<open>
  C9. On a texture with \<open>loaded\<close> false, \<open>isDynamic\<close> false and \<open>imageTexture\<close>
  \<open>null\<close>, the getters \<open>width\<close> and \<open>height\<close> take the static branch and throw a
  \<open>TypeError\<close>; they do not return 0. And this is the case whenever \<open>loaded\<close> is
  false on a texture that was constructed and then used through its methods only, in
  any number and order, returning or throwing.
\<close>

theorem unbound_getters_throw:
  "(\<not> loaded (tex w) \<and> \<not> isDynamic (tex w) \<and> imageTexture (tex w) = None \<longrightarrow>
      width (store w) (tex w) = Inl TypeError \<and> height (store w) (tex w) = Inl TypeError) \<and>
   (\<not> loaded (tex (run env cs (state_after (new_Texture env parent h key)))) \<longrightarrow>
      width (store (run env cs (state_after (new_Texture env parent h key))))
            (tex (run env cs (state_after (new_Texture env parent h key)))) = Inl TypeError \<and>
      height (store (run env cs (state_after (new_Texture env parent h key))))
             (tex (run env cs (state_after (new_Texture env parent h key)))) = Inl TypeError)"
  using run_keeps_unbound [OF new_Texture_unbound, of env cs env parent h key]
  by (auto simp: width_def height_def)

theorem unbound_getters_throw_witness:
  "\<not> loaded (tex example_world) \<and> \<not> isDynamic (tex example_world) \<and>
   imageTexture (tex example_world) = None \<and>
   width (store example_world) (tex example_world) = Inl TypeError \<and>
   height (store example_world) (tex example_world) = Inl TypeError \<and>
   \<not> loaded (tex (run example_env [CallLoadImage ''ghost'' False True]
        (state_after (new_Texture example_env example_sprite example_heap (Some ''ghost''))))) \<and>
   width example_heap (tex (run example_env [CallLoadImage ''ghost'' False True]
        (state_after (new_Texture example_env example_sprite example_heap (Some ''ghost'')))))
     = Inl TypeError \<and>
   height example_heap (tex (run example_env [CallLoadImage ''ghost'' False True]
        (state_after (new_Texture example_env example_sprite example_heap (Some ''ghost'')))))
     = Inl TypeError"
proof -
  have a: "\<not> loaded (tex example_world) \<and> \<not> isDynamic (tex example_world) \<and>
     imageTexture (tex example_world) = None"
    by (simp add: example_world_def fresh_def)
  have b: "\<not> loaded (tex (run example_env [CallLoadImage ''ghost'' False True]
        (state_after (new_Texture example_env example_sprite example_heap (Some ''ghost'')))))"
    by (simp add: new_Texture_def model_defs example_defs)
  have c: "store (run example_env [CallLoadImage ''ghost'' False True]
        (state_after (new_Texture example_env example_sprite example_heap (Some ''ghost''))))
      = example_heap"
    by (simp add: new_Texture_def model_defs example_env_def example_sprite_def)
  from unbound_getters_throw
        [of example_world example_env "[CallLoadImage ''ghost'' False True]"
            example_sprite example_heap "Some ''ghost''"]
  show ?thesis
    using a b c by simp
qed

subsection \<open>C10: a cache miss still clears the animations\<close>

text \<open>
  C10. \<open>loadImage\<close> clears the animations before it looks the key up. When the
  animation manager holds frame data and the key is not in the cache, \<open>loadImage\<close>
  with \<open>clearAnimations\<close> true returns after the single step of calling
  \<open>animations.destroy\<close>: the animation manager is what \<open>destroy\<close> made of it, while the
  texture, what its getters give, \<open>frameBounds\<close> and the body are unchanged.
\<close>

theorem loadImage_miss_still_destroys:
  assumes "frameData (animations (sprite w)) \<noteq> None"
    and "getImage env key = None"
  shows "\<exists>w'. loadImage env key True updateBody w = Inr w' \<and>
           trace w' = trace w @ [AnimationsDestroy] \<and>
           animations (sprite w') = destroy env (animations (sprite w)) \<and>
           tex w' = tex w \<and>
           width (store w') (tex w') = width (store w) (tex w) \<and>
           height (store w') (tex w') = height (store w) (tex w) \<and>
           frameBounds (sprite w') = frameBounds (sprite w) \<and>
           body (sprite w') = body (sprite w)"
  using assms by (simp add: loadImage_miss animations_destroy_frame)

theorem loadImage_miss_still_destroys_witness:
  "frameData (animations (sprite example_world)) \<noteq> None \<and>
   getImage example_env ''ghost'' = None \<and>
   trace (state_after (loadImage example_env ''ghost'' True False example_world))
     = [AnimationsDestroy] \<and>
   frameData (animations (sprite
       (state_after (loadImage example_env ''ghost'' True False example_world)))) = None \<and>
   tex (state_after (loadImage example_env ''ghost'' True False example_world)) = fresh"
proof -
  have fd: "frameData (animations (sprite example_world)) \<noteq> None"
    by (simp add: example_world_def example_sprite_def)
  have miss: "getImage example_env ''ghost'' = None"
    by (simp add: example_env_def)
  from loadImage_miss_still_destroys [OF fd miss, of False]
  show ?thesis
    using fd miss by (simp add: model_defs example_world_def example_env_def example_sprite_def)
qed

end
